theory Spec2Isabelle
  imports Complex_Main "HOL-Library.Log_Nat"
begin

section \<open>Values of the JavaScript runtime\<close>

text \<open>
  A value thrown by JavaScript code is either an \<^verbatim>\<open>Error\<close> object, of which only the
  message is read, or an \<^verbatim>\<open>Error\<close> object that carries an \<^verbatim>\<open>httpResponse\<close> (as the
  search client throws), or some other value, of which only the \<^verbatim>\<open>String(...)\<close>
  rendering is read. Of the response, \<open>bodyText\<close> is what \<^verbatim>\<open>response.text()\<close> resolves
  to (\<open>None\<close> when it rejects) and \<open>status\<close> is the decimal rendering of the status. A promise settles as rejected with a thrown value or resolved with a result.
  JavaScript numbers are modelled as \<^typ>\<open>int\<close> (counts, lengths, limits), which is exact
  while every count and every sum stays below \<open>2^53\<close> in magnitude. Where the source
  divides or multiplies, the result is the double nearest to the exact result
  (\<open>toDouble\<close> below).
  A string is the list of the bytes of its UTF-8 encoding.
\<close>

record HttpResponse =
  bodyText :: "string option"
  status :: string
  statusText :: string

datatype thrown = JsError string | JsErrorWithResponse string HttpResponse | NonError string

datatype 'a outcome = Rejected thrown | Resolved 'a

text \<open>\<^verbatim>\<open>getErrorMessage\<close>: \<^verbatim>\<open>error instanceof Error ? error.message : String(error)\<close>.\<close>

fun getErrorMessage :: "thrown \<Rightarrow> string" where
  "getErrorMessage (JsError message) = message"
| "getErrorMessage (JsErrorWithResponse message response) = message"
| "getErrorMessage (NonError rendering) = rendering"

text \<open>A string is truthy when it is not empty; a number is truthy when it is not zero.\<close>

definition truthy :: "string \<Rightarrow> bool" where
  "truthy s = (s \<noteq> [])"

text \<open>
  The double nearest to a rational number, a tie going to the even significand: the
  number is scaled to a significand of 53 bits, rounded, and scaled back. The range of
  the exponent is not modelled (a quotient of two integers below \<open>2^53\<close> is within it).
  \<open>binaryExponent x\<close> is the integer part of the binary logarithm of a positive \<open>x\<close>.
\<close>

definition binaryExponent :: "rat \<Rightarrow> int" where
  "binaryExponent x = (if 1 \<le> x then bitlen \<lfloor>x\<rfloor> - 1 else - bitlen (\<lceil>1 / x\<rceil> - 1))"

definition roundHalfEven :: "rat \<Rightarrow> int" where
  "roundHalfEven m =
     (let f = \<lfloor>m\<rfloor>; d = m - of_int f
      in if d < 1 / 2 then f else if 1 / 2 < d then f + 1 else if even f then f else f + 1)"

definition scale2 :: "rat \<Rightarrow> int \<Rightarrow> rat" where
  "scale2 x e = (if 0 \<le> e then x * 2 ^ nat e else x / 2 ^ nat (- e))"

definition toDouble :: "rat \<Rightarrow> rat" where
  "toDouble x =
     (if x = 0 then 0
      else (let e = binaryExponent \<bar>x\<bar> - 52
            in sgn x * scale2 (of_int (roundHalfEven (scale2 \<bar>x\<bar> (- e)))) e))"

text \<open>\<^verbatim>\<open>Math.round\<close> rounds to the nearest integer, a half towards plus infinity.\<close>

definition Math_round :: "rat \<Rightarrow> int" where
  "Math_round x = \<lfloor>x + 1 / 2\<rfloor>"

text \<open>
  \<^verbatim>\<open>Array.prototype.slice(start, end)\<close> on integer arguments: a negative index counts
  from the end, and both indices are clamped to the array.
\<close>

definition slice :: "'a list \<Rightarrow> int \<Rightarrow> int \<Rightarrow> 'a list" where
  "slice xs start end' =
     (let len = int (length xs);
          k = (if start < 0 then max (len + start) 0 else min start len);
          final = (if end' < 0 then max (len + end') 0 else min end' len)
      in take (nat (final - k)) (drop (nat k) xs))"

text \<open>\<^verbatim>\<open>slice(start)\<close> with the end omitted runs to the end of the array.\<close>

definition slice_from :: "'a list \<Rightarrow> int \<Rightarrow> 'a list" where
  "slice_from xs start = slice xs start (int (length xs))"

section \<open>Download statistics\<close>

record JsrDownloadPoint =
  timeBucket :: string
  count :: int

text \<open>
  The source reads \<^verbatim>\<open>downloads.total?.\<close>, \<^verbatim>\<open>downloads.recentVersions?.\<close> and
  \<^verbatim>\<open>latestVersion?.downloads?.\<close>: these three fields may be undefined in the JSON that
  the registry returns, which is \<open>None\<close> here.
\<close>

record JsrVersionDownloads =
  version :: string
  downloads :: "JsrDownloadPoint list option"

record JsrDownloads =
  total :: "JsrDownloadPoint list option"
  recentVersions :: "JsrVersionDownloads list option"

record DownloadSummary =
  totalDownloads :: int
  recentDownloads :: int
  latestVersion :: string
  latestVersionDownloads :: int
  activityEntries :: int
  lastActivity :: "string option"
  last7DaysAverage :: int
  weeklyAverage :: int
  monthlyAverage :: int
  weeklySums :: "int list"
  monthlySums :: "int list"
  error :: "string option"

text \<open>\<^verbatim>\<open>xs.reduce((sum, entry) => sum + entry.count, 0)\<close>\<close>

definition sumCounts :: "JsrDownloadPoint list \<Rightarrow> int" where
  "sumCounts xs = foldl (\<lambda>sum entry. sum + count entry) 0 xs"

text \<open>
  The loop \<^verbatim>\<open>for (let i = 0; i < 4; i++)\<close> over the weeks; \<^verbatim>\<open>unshift\<close> puts the
  new sum in front.
\<close>

function weeklyLoop :: "JsrDownloadPoint list \<Rightarrow> int \<Rightarrow> int list \<Rightarrow> int list" where
  "weeklyLoop totalData i weeklySums' =
     (if i < 4 then
        (let weekStart = int (length totalData) - 7 - (i * 7);
             weekEnd = int (length totalData) - (i * 7)
         in weeklyLoop totalData (i + 1)
              (if weekStart \<ge> 0
               then sumCounts (slice totalData (max 0 weekStart) weekEnd) # weeklySums'
               else weeklySums'))
      else weeklySums')"
  by pat_completeness auto
termination
  by (relation "measure (\<lambda>(totalData, i, weeklySums'). nat (4 - i))") auto

text \<open>The loop \<^verbatim>\<open>for (let i = 0; i < 6; i++)\<close> over the months.\<close>

function monthlyLoop :: "JsrDownloadPoint list \<Rightarrow> int \<Rightarrow> int list \<Rightarrow> int list" where
  "monthlyLoop totalData i monthlySums' =
     (if i < 6 then
        (let monthStart = int (length totalData) - 30 - (i * 30);
             monthEnd = int (length totalData) - (i * 30)
         in monthlyLoop totalData (i + 1)
              (if monthStart \<ge> 0
               then sumCounts (slice totalData (max 0 monthStart) monthEnd) # monthlySums'
               else monthlySums'))
      else monthlySums')"
  by pat_completeness auto
termination
  by (relation "measure (\<lambda>(totalData, i, monthlySums'). nat (6 - i))") auto

declare weeklyLoop.simps [simp del] monthlyLoop.simps [simp del]

text \<open>
  The body of the \<^verbatim>\<open>try\<close> block of \<^verbatim>\<open>getPackageDownloadSummary\<close>, after the
  download data has arrived. A JSON body \<^verbatim>\<open>null\<close> (\<open>None\<close>) makes
  \<^verbatim>\<open>downloads.total\<close> throw a TypeError, with the message of the V8 engine.
\<close>

definition summaryOfDownloads :: "JsrDownloads option \<Rightarrow> thrown + DownloadSummary" where
  "summaryOfDownloads response =
     (case response of
        None \<Rightarrow> Inl (JsError ''Cannot read properties of null (reading 'total')'')
      | Some data \<Rightarrow>
          (let totalDownloads' = (case total data of None \<Rightarrow> 0 | Some t \<Rightarrow> sumCounts t);
               recentActivity = (case total data of None \<Rightarrow> [] | Some t \<Rightarrow> slice_from t (- 30));
               recentDownloads' = sumCounts recentActivity;
               totalData = (case total data of None \<Rightarrow> [] | Some t \<Rightarrow> t);
               last7Days = slice_from totalData (- 7);
               last7DaysTotal = sumCounts last7Days;
               last7DaysAverage' =
                 (if length last7Days > 0
                  then Math_round
                         (toDouble (of_int last7DaysTotal / of_int (int (length last7Days))))
                  else 0);
               totalEntries = int (length totalData);
               dailyAverage =
                 (if totalEntries > 0
                  then Math_round (toDouble (of_int totalDownloads' / of_int totalEntries))
                  else 0);
               weeklyAverage' = Math_round (toDouble (of_int dailyAverage * 7));
               monthlyAverage' = Math_round (toDouble (of_int dailyAverage * 30));
               weeklySums' = weeklyLoop totalData 0 [];
               monthlySums' = monthlyLoop totalData 0 [];
               latestVersion' =
                 (case recentVersions data of
                    None \<Rightarrow> None
                  | Some [] \<Rightarrow> None
                  | Some (v # _) \<Rightarrow> Some v);
               latestVersionDownloads' =
                 (case latestVersion' of
                    None \<Rightarrow> 0
                  | Some v \<Rightarrow> (case downloads v of None \<Rightarrow> 0 | Some d \<Rightarrow> sumCounts d))
           in Inr \<lparr>totalDownloads = totalDownloads',
                   recentDownloads = recentDownloads',
                   latestVersion =
                     (case latestVersion' of
                        None \<Rightarrow> ''Unknown''
                      | Some v \<Rightarrow> (if truthy (version v) then version v else ''Unknown'')),
                   latestVersionDownloads = latestVersionDownloads',
                   activityEntries = int (length recentActivity),
                   lastActivity =
                     (if recentActivity = [] then None
                      else if truthy (timeBucket (last recentActivity))
                      then Some (timeBucket (last recentActivity)) else None),
                   last7DaysAverage = last7DaysAverage',
                   weeklyAverage = weeklyAverage',
                   monthlyAverage = monthlyAverage',
                   weeklySums = weeklySums',
                   monthlySums = monthlySums',
                   error = None\<rparr>))"

text \<open>The object that the \<^verbatim>\<open>catch\<close> block of \<^verbatim>\<open>getPackageDownloadSummary\<close> returns.\<close>

definition summaryOfFailure :: "thrown \<Rightarrow> DownloadSummary" where
  "summaryOfFailure e =
     \<lparr>totalDownloads = 0,
      recentDownloads = 0,
      latestVersion = ''Unknown'',
      latestVersionDownloads = 0,
      activityEntries = 0,
      lastActivity = None,
      last7DaysAverage = 0,
      weeklyAverage = 0,
      monthlyAverage = 0,
      weeklySums = [],
      monthlySums = [],
      error = Some (getErrorMessage e)\<rparr>"

text \<open>
  \<^verbatim>\<open>getPackageDownloadSummary(scope, packageName)\<close>. The registry is the parameter
  \<open>getPackageDownloads\<close>: for a scope and a package name, the promise of the download
  data settles as rejected (network failure, HTTP status, malformed JSON) or resolved.
  The result is a sum so that a throw of the function itself would be a value \<open>Inl\<close>.
\<close>

definition getPackageDownloadSummary ::
  "(string \<Rightarrow> string \<Rightarrow> JsrDownloads option outcome) \<Rightarrow> string \<Rightarrow> string
     \<Rightarrow> thrown + DownloadSummary" where
  "getPackageDownloadSummary getPackageDownloads scope packageName =
     (case (case getPackageDownloads scope packageName of
              Rejected e \<Rightarrow> Inl e
            | Resolved response \<Rightarrow> summaryOfDownloads response) of
        Inr summary \<Rightarrow> Inr summary
      | Inl e \<Rightarrow> Inr (summaryOfFailure e))"

section \<open>Search\<close>

text \<open>
  Of \<^verbatim>\<open>PackageInfo\<close> the fields that the functions below read; the other optional
  fields (runtime compatibility, counts, timestamps) are carried along unread.
\<close>

record PackageInfo =
  id' :: string
  name :: string
  scope :: string
  description :: string
  latest :: "string option"

record OramaHit =
  document :: PackageInfo
  score :: rat

record EnhancedOramaHit = OramaHit +
  downloads :: "DownloadSummary option"

text \<open>The source reads \<^verbatim>\<open>result?.hits?.\<close>: the hit list may be undefined.\<close>

record OramaSearchResult =
  count :: int
  hits :: "OramaHit list option"
  error :: "string option"

text \<open>
  \<^verbatim>\<open>EnhancedOramaSearchResult & { originalPackage?: PackageInfo }\<close>, the result type of
  \<^verbatim>\<open>findSimilarPackages\<close>.
\<close>

record EnhancedOramaSearchResult =
  count :: int
  hits :: "EnhancedOramaHit list"
  error :: "string option"
  originalPackage :: "PackageInfo option"

datatype SearchMode = fulltext | vector | hybrid

type_synonym Boost = "(string \<times> rat) list"

text \<open>
  The options object of a search, with \<^verbatim>\<open>includeDownloads\<close>, which
  \<^verbatim>\<open>findSimilarPackages\<close> accepts. \<open>None\<close> is a key that the object does not have.
\<close>

record OramaSearchOptions =
  limit :: "int option"
  offset :: "int option"
  mode :: "SearchMode option"
  boost :: "Boost option"
  includeDownloads :: "bool option"

text \<open>The object that \<^verbatim>\<open>queryOrama\<close> passes to \<^verbatim>\<open>client.search\<close>.\<close>

record SearchParams =
  term' :: string
  limit :: int
  offset :: int
  boost :: Boost
  mode :: SearchMode
  includeDownloads :: "bool option"

text \<open>\<^verbatim>\<open>a || b\<close> on an optional number: \<open>b\<close> when \<open>a\<close> is undefined or zero.\<close>

definition orNumber :: "int option \<Rightarrow> int \<Rightarrow> int" where
  "orNumber a b = (case a of None \<Rightarrow> b | Some v \<Rightarrow> if v \<noteq> 0 then v else b)"

text \<open>
  The object literal \<^verbatim>\<open>searchParams\<close> of \<^verbatim>\<open>queryOrama\<close>: the defaults first, then
  \<^verbatim>\<open>...options\<close>, which overwrites every key that \<open>options\<close> has.
\<close>

definition searchParams :: "string \<Rightarrow> OramaSearchOptions \<Rightarrow> SearchParams" where
  "searchParams query options =
     \<lparr>term' = query,
      SearchParams.limit =
        (case OramaSearchOptions.limit options of
           Some l \<Rightarrow> l
         | None \<Rightarrow> orNumber (OramaSearchOptions.limit options) 20),
      SearchParams.offset =
        (case OramaSearchOptions.offset options of
           Some off \<Rightarrow> off
         | None \<Rightarrow> orNumber (OramaSearchOptions.offset options) 0),
      SearchParams.boost =
        (case OramaSearchOptions.boost options of
           Some b \<Rightarrow> b
         | None \<Rightarrow> [(''id'', 3), (''scope'', 2), (''name'', 1), (''description'', 0.5)]),
      SearchParams.mode =
        (case OramaSearchOptions.mode options of
           Some m \<Rightarrow> m
         | None \<Rightarrow> fulltext),
      SearchParams.includeDownloads = OramaSearchOptions.includeDownloads options\<rparr>"

text \<open>
  \<^verbatim>\<open>queryOrama(query, options)\<close>. The search backend is the parameter \<open>client\<close>: for
  the parameters of a search, the promise of \<^verbatim>\<open>client.search\<close> settles as rejected or
  resolved, with \<open>None\<close> for a null response. The second component of the result is
  the list of the requests sent to the backend.
\<close>

definition queryOrama ::
  "(SearchParams \<Rightarrow> OramaSearchResult option outcome) \<Rightarrow> string \<Rightarrow> OramaSearchOptions
     \<Rightarrow> OramaSearchResult \<times> SearchParams list" where
  "queryOrama client query options =
     (let params = searchParams query options in
      ((case client params of
          Resolved None \<Rightarrow>
            \<lparr>OramaSearchResult.count = 0, hits = Some [],
             error = Some ''Search failed: received null response''\<rparr>
        | Resolved (Some res) \<Rightarrow> res
        | Rejected (JsErrorWithResponse message response) \<Rightarrow>
            (let fallbackBody = ''HTTP '' @ status response @ '': '' @ statusText response;
                 errorBody =
                   (case bodyText response of
                      Some text' \<Rightarrow> if truthy text' then text' else fallbackBody
                    | None \<Rightarrow> fallbackBody)
             in \<lparr>OramaSearchResult.count = 0, hits = Some [],
                  error = Some (''Orama API error: '' @ errorBody)\<rparr>)
        | Rejected e \<Rightarrow>
            \<lparr>OramaSearchResult.count = 0, hits = Some [],
             error = Some (''Search failed: '' @ getErrorMessage e)\<rparr>),
       [params]))"

text \<open>
  \<^verbatim>\<open>String.prototype.trim\<close> removes white space and line terminators from both ends.
  \<open>whiteSpaces\<close> are their encodings: tab, line feed, vertical tab, form feed, carriage
  return, space, U+00A0, U+1680, U+2000 to U+200A, U+2028, U+2029, U+202F, U+205F,
  U+3000 and U+FEFF. \<open>leading ws s\<close> is the length of the first of \<open>ws\<close> that \<open>s\<close>
  starts with, zero when there is none; \<open>stripLeading\<close> removes such prefixes until
  none is left.
\<close>

definition whiteSpaces :: "string list" where
  "whiteSpaces =
     [[CHR 0x09], [CHR 0x0A], [CHR 0x0B], [CHR 0x0C], [CHR 0x0D], [CHR 0x20],
      [CHR 0xC2, CHR 0xA0], [CHR 0xE1, CHR 0x9A, CHR 0x80],
      [CHR 0xE2, CHR 0x80, CHR 0x80], [CHR 0xE2, CHR 0x80, CHR 0x81],
      [CHR 0xE2, CHR 0x80, CHR 0x82], [CHR 0xE2, CHR 0x80, CHR 0x83],
      [CHR 0xE2, CHR 0x80, CHR 0x84], [CHR 0xE2, CHR 0x80, CHR 0x85],
      [CHR 0xE2, CHR 0x80, CHR 0x86], [CHR 0xE2, CHR 0x80, CHR 0x87],
      [CHR 0xE2, CHR 0x80, CHR 0x88], [CHR 0xE2, CHR 0x80, CHR 0x89],
      [CHR 0xE2, CHR 0x80, CHR 0x8A], [CHR 0xE2, CHR 0x80, CHR 0xA8],
      [CHR 0xE2, CHR 0x80, CHR 0xA9], [CHR 0xE2, CHR 0x80, CHR 0xAF],
      [CHR 0xE2, CHR 0x81, CHR 0x9F], [CHR 0xE3, CHR 0x80, CHR 0x80],
      [CHR 0xEF, CHR 0xBB, CHR 0xBF]]"

definition leading :: "string list \<Rightarrow> string \<Rightarrow> nat" where
  "leading ws s =
     (case filter (\<lambda>w. w \<noteq> [] \<and> take (length w) s = w) ws of
        [] \<Rightarrow> 0
      | w # _ \<Rightarrow> length w)"

function stripLeading :: "string list \<Rightarrow> string \<Rightarrow> string" where
  "stripLeading ws s =
     (if leading ws s = 0 then s else stripLeading ws (drop (leading ws s) s))"
  by pat_completeness auto
termination
proof (relation "measure (\<lambda>(ws, s). length s)")
  show "wf (measure (\<lambda>(ws, s). length s))" by simp
next
  fix ws :: "string list" and s :: string
  assume nz: "leading ws s \<noteq> 0"
  have "leading ws s \<le> length s"
  proof (cases "filter (\<lambda>w. w \<noteq> [] \<and> take (length w) s = w) ws")
    case Nil
    then show ?thesis by (simp add: leading_def)
  next
    case (Cons w rest)
    then have "w \<in> set (filter (\<lambda>w. w \<noteq> [] \<and> take (length w) s = w) ws)" by simp
    then have "take (length w) s = w" by simp
    then have "length (take (length w) s) = length w" by simp
    then have "length w \<le> length s" by simp
    then show ?thesis using Cons by (simp add: leading_def)
  qed
  then show "((ws, drop (leading ws s) s), (ws, s)) \<in> measure (\<lambda>(ws, s). length s)"
    using nz by simp
qed

declare stripLeading.simps [simp del]

definition trim :: "string \<Rightarrow> string" where
  "trim s = rev (stripLeading (map rev whiteSpaces) (rev (stripLeading whiteSpaces s)))"

text \<open>
  The test \<^verbatim>\<open>downloads.error ? ... : ...\<close>: the summary reports an error when its
  \<open>error\<close> field is a truthy string.
\<close>

definition reportsError :: "DownloadSummary \<Rightarrow> bool" where
  "reportsError summary =
     (case DownloadSummary.error summary of None \<Rightarrow> False | Some message \<Rightarrow> truthy message)"

text \<open>
  The arrow function that \<^verbatim>\<open>findSimilarPackages\<close> maps over the hits when
  \<^verbatim>\<open>includeDownloads\<close> holds: the hit with
  \<^verbatim>\<open>downloads: downloads.error ? undefined : downloads\<close> in the \<^verbatim>\<open>try\<close> block, the
  bare hit in the \<^verbatim>\<open>catch\<close> block.
\<close>

definition withDownloads ::
  "(string \<Rightarrow> string \<Rightarrow> JsrDownloads option outcome) \<Rightarrow> OramaHit \<Rightarrow> EnhancedOramaHit" where
  "withDownloads getPackageDownloads hit =
     (case getPackageDownloadSummary getPackageDownloads
             (scope (document hit)) (name (document hit)) of
        Inr summary \<Rightarrow>
          \<lparr>document = document hit, score = score hit,
           downloads = (if reportsError summary then None else Some summary)\<rparr>
      | Inl e \<Rightarrow> \<lparr>document = document hit, score = score hit, downloads = None\<rparr>)"

text \<open>
  \<^verbatim>\<open>findSimilarPackages(packageName, options)\<close>, with the search backend and the
  registry as parameters. The second component of the result is the list of the
  requests sent to the search backend, in the order of the calls.
\<close>

definition findSimilarPackages ::
  "(SearchParams \<Rightarrow> OramaSearchResult option outcome)
     \<Rightarrow> (string \<Rightarrow> string \<Rightarrow> JsrDownloads option outcome)
     \<Rightarrow> string \<Rightarrow> OramaSearchOptions
     \<Rightarrow> EnhancedOramaSearchResult \<times> SearchParams list" where
  "findSimilarPackages client getPackageDownloads packageName options =
     (let includeDownloads' = (OramaSearchOptions.includeDownloads options \<noteq> Some False);
          (packageResult, sent) =
            queryOrama client packageName
              \<lparr>OramaSearchOptions.limit = Some 1,
               OramaSearchOptions.offset = None,
               OramaSearchOptions.mode = None,
               OramaSearchOptions.boost = Some [(''name'', 5), (''scope'', 3), (''id'', 2)],
               OramaSearchOptions.includeDownloads = None\<rparr>
      in case OramaSearchResult.hits packageResult of
           None \<Rightarrow>
             (\<lparr>EnhancedOramaSearchResult.count = 0, hits = [],
               error = Some ''Package not found'', originalPackage = None\<rparr>, sent)
         | Some [] \<Rightarrow>
             (\<lparr>EnhancedOramaSearchResult.count = 0, hits = [],
               error = Some ''Package not found'', originalPackage = None\<rparr>, sent)
         | Some (first # _) \<Rightarrow>
             (let pkg = document first;
                  searchQuery = trim (name pkg @ '' '' @ description pkg);
                  (similarResults, sent') =
                    queryOrama client searchQuery
                      \<lparr>OramaSearchOptions.limit =
                         (case OramaSearchOptions.limit options of
                            Some l \<Rightarrow> Some l
                          | None \<Rightarrow> Some (orNumber (OramaSearchOptions.limit options) 10 + 1)),
                       OramaSearchOptions.offset = OramaSearchOptions.offset options,
                       OramaSearchOptions.mode = OramaSearchOptions.mode options,
                       OramaSearchOptions.boost =
                         (case OramaSearchOptions.boost options of
                            Some b \<Rightarrow> Some b
                          | None \<Rightarrow>
                              Some [(''description'', 2.5), (''name'', 1.8),
                                    (''scope'', 1.0), (''id'', 0.2)]),
                       OramaSearchOptions.includeDownloads =
                         OramaSearchOptions.includeDownloads options\<rparr>;
                  filtered =
                    (case OramaSearchResult.hits similarResults of
                       None \<Rightarrow> []
                     | Some hs \<Rightarrow> filter (\<lambda>hit. id' (document hit) \<noteq> id' pkg) hs);
                  limitedResults =
                    slice filtered 0 (orNumber (OramaSearchOptions.limit options) 10);
                  enhancedHits =
                    (if includeDownloads'
                     then map (withDownloads getPackageDownloads) limitedResults
                     else map (\<lambda>hit. \<lparr>document = document hit, score = score hit,
                                        downloads = None\<rparr>) limitedResults)
              in (\<lparr>EnhancedOramaSearchResult.count = int (length enhancedHits),
                   hits = enhancedHits, error = None, originalPackage = Some pkg\<rparr>,
                  sent @ sent')))"

section \<open>The compare tool\<close>




text \<open>
  An element of \<^verbatim>\<open>packageDetails\<close>; a key that the object does not have is \<open>None\<close>,
  and \<open>False\<close> for \<open>fallback\<close>.
\<close>

record PackageDetail =
  id' :: string
  name :: "string option"
  scope :: "string option"
  description :: "string option"
  latestVersion :: "string option"
  recentDownloads :: "int option"
  totalDownloads :: "int option"
  found :: bool
  fallback :: bool
  error :: "string option"






section \<open>The option objects of the calls\<close>

text \<open>
  Names for the three object literals that the source passes to \<^verbatim>\<open>queryOrama\<close>: the
  options of the search that resolves the package, the options of the search for similar
  packages (the literal with \<^verbatim>\<open>...options\<close> spread over it), and the options of the
  fallback search of the compare tool.
\<close>

definition resolveOptions :: OramaSearchOptions where
  "resolveOptions =
     \<lparr>OramaSearchOptions.limit = Some 1,
      OramaSearchOptions.offset = None,
      OramaSearchOptions.mode = None,
      OramaSearchOptions.boost = Some [(''name'', 5), (''scope'', 3), (''id'', 2)],
      OramaSearchOptions.includeDownloads = None\<rparr>"

definition similarOptions :: "OramaSearchOptions \<Rightarrow> OramaSearchOptions" where
  "similarOptions options =
     \<lparr>OramaSearchOptions.limit =
        (case OramaSearchOptions.limit options of
           Some l \<Rightarrow> Some l
         | None \<Rightarrow> Some (orNumber (OramaSearchOptions.limit options) 10 + 1)),
      OramaSearchOptions.offset = OramaSearchOptions.offset options,
      OramaSearchOptions.mode = OramaSearchOptions.mode options,
      OramaSearchOptions.boost =
        (case OramaSearchOptions.boost options of
           Some b \<Rightarrow> Some b
         | None \<Rightarrow>
             Some [(''description'', 2.5), (''name'', 1.8), (''scope'', 1.0), (''id'', 0.2)]),
      OramaSearchOptions.includeDownloads = OramaSearchOptions.includeDownloads options\<rparr>"


section \<open>Example registries and backends\<close>

definition day :: "string \<Rightarrow> int \<Rightarrow> JsrDownloadPoint" where
  "day bucket n = \<lparr>timeBucket = bucket, JsrDownloadPoint.count = n\<rparr>"

definition nineDays :: "JsrDownloadPoint list" where
  "nineDays =
     [day ''2025-06-01'' 1, day ''2025-06-02'' 2, day ''2025-06-03'' 3,
      day ''2025-06-04'' 4, day ''2025-06-05'' 5, day ''2025-06-07'' 6,
      day ''2025-06-08'' 7, day ''2025-06-09'' 8, day ''2025-06-10'' 9]"

definition seriesRegistry ::
  "JsrDownloadPoint list \<Rightarrow> string \<Rightarrow> string \<Rightarrow> JsrDownloads option outcome" where
  "seriesRegistry series scope' packageName =
     Resolved (Some \<lparr>total = Some series,
                     recentVersions =
                       Some [\<lparr>version = ''1.0.0'',
                              JsrVersionDownloads.downloads = Some series\<rparr>]\<rparr>)"

definition emptySeriesRegistry :: "string \<Rightarrow> string \<Rightarrow> JsrDownloads option outcome" where
  "emptySeriesRegistry scope' packageName =
     Resolved (Some \<lparr>total = Some [], recentVersions = Some []\<rparr>)"

text \<open>A registry with the downloads of one version and an empty total series.\<close>

definition versionOnlyRegistry :: "string \<Rightarrow> string \<Rightarrow> JsrDownloads option outcome" where
  "versionOnlyRegistry scope' packageName =
     Resolved (Some \<lparr>total = Some [],
                     recentVersions =
                       Some [\<lparr>version = ''2.1.0'',
                              JsrVersionDownloads.downloads = Some nineDays\<rparr>]\<rparr>)"

definition failingRegistry :: "string \<Rightarrow> string \<Rightarrow> JsrDownloads option outcome" where
  "failingRegistry scope' packageName = Rejected (JsError ''HTTP error! status: 404'')"

definition package :: "string \<Rightarrow> string \<Rightarrow> string \<Rightarrow> PackageInfo" where
  "package scope' name' description' =
     \<lparr>PackageInfo.id' = ''@'' @ scope' @ ''/'' @ name', name = name', scope = scope',
      description = description', latest = Some ''1.0.0''\<rparr>"

definition stdHttp :: PackageInfo where
  "stdHttp = package ''std'' ''http'' ''HTTP utilities''"

definition stdNet :: PackageInfo where
  "stdNet = package ''std'' ''net'' ''Network utilities''"

definition honoHono :: PackageInfo where
  "honoHono = package ''hono'' ''hono'' ''Web framework''"

text \<open>A backend that answers every search with the same three hits, \<open>@std/http\<close> first.\<close>

definition rankingBackend :: "SearchParams \<Rightarrow> OramaSearchResult option outcome" where
  "rankingBackend params =
     Resolved (Some \<lparr>OramaSearchResult.count = 3,
                     hits = Some [\<lparr>document = stdHttp, score = 9\<rparr>,
                                  \<lparr>document = stdNet, score = 7\<rparr>,
                                  \<lparr>document = honoHono, score = 4\<rparr>],
                     error = None\<rparr>)"

definition failingBackend :: "SearchParams \<Rightarrow> OramaSearchResult option outcome" where
  "failingBackend params = Rejected (JsError ''fetch failed'')"

text \<open>A registry that has download data for every package but \<open>net\<close>.\<close>

definition partialRegistry :: "string \<Rightarrow> string \<Rightarrow> JsrDownloads option outcome" where
  "partialRegistry scope' packageName =
     (if packageName = ''net'' then failingRegistry scope' packageName
      else seriesRegistry nineDays scope' packageName)"



definition limitFive :: OramaSearchOptions where
  "limitFive =
     \<lparr>OramaSearchOptions.limit = Some 5, offset = None, mode = None, boost = None,
      includeDownloads = None\<rparr>"

section \<open>The windows of the specification\<close>

text \<open>
  The sum of the counts of the points \<open>[len - w * (k + 1), len - w * k)\<close> of a series of
  length \<open>len\<close>: window \<open>k\<close> of width \<open>w\<close>, counted from the end of the series.
\<close>

definition windowSum :: "nat \<Rightarrow> JsrDownloadPoint list \<Rightarrow> nat \<Rightarrow> int" where
  "windowSum w xs k =
     (\<Sum>j = length xs - w * (k + 1)..<length xs - w * k. JsrDownloadPoint.count (xs ! j))"

section \<open>Sums, slices and the two loops\<close>

lemma foldl_count_acc:
  "foldl (\<lambda>sum entry. sum + JsrDownloadPoint.count entry) a xs
     = a + sum_list (map JsrDownloadPoint.count xs)"
  by (induction xs arbitrary: a) simp_all

lemma sumCounts_sum_list: "sumCounts xs = sum_list (map JsrDownloadPoint.count xs)"
  by (simp add: sumCounts_def foldl_count_acc)

lemma sum_list_window:
  assumes "a + w \<le> length xs"
  shows "sum_list (map f (take w (drop a xs))) = (\<Sum>j = a..<a + w. f (xs ! j))"
proof -
  have "sum_list (map f (take w (drop a xs))) = (\<Sum>j = 0..<w. f (take w (drop a xs) ! j))"
    using assms by (simp add: sum_list_sum_nth atLeast0LessThan)
  also have "\<dots> = (\<Sum>j = 0..<w. f (xs ! (a + j)))"
    using assms by (intro sum.cong) simp_all
  also have "\<dots> = (\<Sum>j = a..<a + w. f (xs ! j))"
    using sum.shift_bounds_nat_ivl [of "\<lambda>j. f (xs ! j)" 0 a w] by (simp add: add.commute)
  finally show ?thesis .
qed

lemma slice_window:
  assumes "w * (k + 1) \<le> length xs"
  shows "slice xs (max 0 (int (length xs) - int w - int k * int w)) (int (length xs) - int k * int w)
     = take w (drop (length xs - w * (k + 1)) xs)"
proof -
  have kw: "k * w \<le> length xs" "w + k * w \<le> length xs"
    using assms by (simp_all add: algebra_simps)
  have s: "int (length xs) - int w - int k * int w = int (length xs - w * (k + 1))"
    using kw by (simp add: algebra_simps of_nat_diff)
  have e: "int (length xs) - int k * int w = int (length xs - k * w)"
    using kw by (simp add: of_nat_diff)
  have d: "nat (int (length xs - k * w) - int (length xs - w * (k + 1))) = w"
    using kw by (simp add: algebra_simps)
  have m: "min (int (length xs - k * w)) (int (length xs)) = int (length xs - k * w)"
    "min (int (length xs - w * (k + 1))) (int (length xs)) = int (length xs - w * (k + 1))"
    by simp_all
  show ?thesis
    unfolding s e slice_def Let_def
    by (simp only: m d max.absorb2 of_nat_0_le_iff of_nat_less_0_iff if_False nat_int)
qed

lemma sumCounts_window:
  assumes "w * (k + 1) \<le> length xs"
  shows "sumCounts (slice xs (max 0 (int (length xs) - int w - int k * int w))
                     (int (length xs) - int k * int w))
     = windowSum w xs k"
proof -
  have "length xs - w * (k + 1) + w = length xs - w * k"
    using assms by (simp add: algebra_simps)
  then show ?thesis
    using assms sum_list_window [of "length xs - w * (k + 1)" w xs JsrDownloadPoint.count]
    by (simp add: slice_window sumCounts_sum_list windowSum_def)
qed

lemma weeklyLoop_from:
  "i \<le> 4 \<Longrightarrow> weeklyLoop xs (int i) acc
     = map (windowSum 7 xs) (rev (filter (\<lambda>k. 7 * (k + 1) \<le> length xs) [i..<4])) @ acc"
proof (induction "4 - i" arbitrary: i acc)
  case 0
  then have "i = 4" by simp
  then show ?case by (simp add: weeklyLoop.simps)
next
  case (Suc n)
  then have lt: "i < 4" and n: "n = 4 - Suc i" and le: "Suc i \<le> 4" by simp_all
  have up: "[i..<4] = i # [Suc i..<4]" using lt by (simp add: upt_conv_Cons)
  have st: "(0 \<le> int (length xs) - 7 - int i * 7) = (7 * (i + 1) \<le> length xs)" by auto
  have si: "int i + 1 = int (Suc i)" by simp
  have step: "weeklyLoop xs (int i) acc = weeklyLoop xs (int (Suc i))
      (if 7 * (i + 1) \<le> length xs then windowSum 7 xs i # acc else acc)"
    using lt sumCounts_window [of 7 i xs]
    by (subst weeklyLoop.simps) (simp add: Let_def st si del: of_nat_Suc)
  show ?case
    unfolding step Suc.hyps(1) [OF n le] up by simp
qed

lemma monthlyLoop_from:
  "i \<le> 6 \<Longrightarrow> monthlyLoop xs (int i) acc
     = map (windowSum 30 xs) (rev (filter (\<lambda>k. 30 * (k + 1) \<le> length xs) [i..<6])) @ acc"
proof (induction "6 - i" arbitrary: i acc)
  case 0
  then have "i = 6" by simp
  then show ?case by (simp add: monthlyLoop.simps)
next
  case (Suc n)
  then have lt: "i < 6" and n: "n = 6 - Suc i" and le: "Suc i \<le> 6" by simp_all
  have up: "[i..<6] = i # [Suc i..<6]" using lt by (simp add: upt_conv_Cons)
  have st: "(0 \<le> int (length xs) - 30 - int i * 30) = (30 * (i + 1) \<le> length xs)" by auto
  have si: "int i + 1 = int (Suc i)" by simp
  have step: "monthlyLoop xs (int i) acc = monthlyLoop xs (int (Suc i))
      (if 30 * (i + 1) \<le> length xs then windowSum 30 xs i # acc else acc)"
    using lt sumCounts_window [of 30 i xs]
    by (subst monthlyLoop.simps) (simp add: Let_def st si del: of_nat_Suc)
  show ?case
    unfolding step Suc.hyps(1) [OF n le] up by simp
qed

lemma full_windows_prefix:
  "0 < w \<Longrightarrow> filter (\<lambda>k. w * (k + 1) \<le> n) [0..<m] = [0..<min m (n div w)]"
proof (induction m)
  case 0
  then show ?case by simp
next
  case (Suc m)
  have iff: "(w * (m + 1) \<le> n) = (m < n div w)"
    using Suc.prems by (metis Suc_eq_plus1 less_eq_Suc_le less_eq_div_iff_mult_less_eq mult.commute)
  show ?case
  proof (cases "m < n div w")
    case True
    then have "min (Suc m) (n div w) = Suc m" "min m (n div w) = m" by simp_all
    then show ?thesis using Suc True iff by simp
  next
    case False
    then have "min (Suc m) (n div w) = n div w" "min m (n div w) = n div w" by simp_all
    then show ?thesis using Suc False iff by simp
  qed
qed

lemma length_slice_from_neg:
  "0 < k \<Longrightarrow> length (slice_from xs (- int k)) = min (length xs) k"
  by (auto simp: slice_from_def slice_def Let_def min_def max_def)

lemma slice_from_Nil: "slice_from [] k = []"
  by (simp add: slice_from_def slice_def)

lemma summary_resolved:
  "getPackageDownloads scope' packageName = Resolved response \<Longrightarrow>
   getPackageDownloadSummary getPackageDownloads scope' packageName
     = (case summaryOfDownloads response of
          Inr summary \<Rightarrow> Inr summary | Inl e \<Rightarrow> Inr (summaryOfFailure e))"
  by (simp add: getPackageDownloadSummary_def)

lemma summaryOfDownloads_Some:
  "\<exists>summary. summaryOfDownloads (Some data) = Inr summary
     \<and> weeklySums summary = weeklyLoop (case total data of None \<Rightarrow> [] | Some t \<Rightarrow> t) 0 []
     \<and> monthlySums summary = monthlyLoop (case total data of None \<Rightarrow> [] | Some t \<Rightarrow> t) 0 []
     \<and> activityEntries summary
         = int (length (slice_from (case total data of None \<Rightarrow> [] | Some t \<Rightarrow> t) (- 30)))
     \<and> DownloadSummary.error summary = None"
  by (cases "total data") (simp_all add: summaryOfDownloads_def Let_def slice_from_Nil)

lemma summary_of_data:
  assumes "getPackageDownloads scope' packageName = Resolved (Some data)"
  shows "\<exists>summary. getPackageDownloadSummary getPackageDownloads scope' packageName = Inr summary
     \<and> weeklySums summary = weeklyLoop (case total data of None \<Rightarrow> [] | Some t \<Rightarrow> t) 0 []
     \<and> monthlySums summary = monthlyLoop (case total data of None \<Rightarrow> [] | Some t \<Rightarrow> t) 0 []
     \<and> activityEntries summary
         = int (length (slice_from (case total data of None \<Rightarrow> [] | Some t \<Rightarrow> t) (- 30)))
     \<and> DownloadSummary.error summary = None"
proof -
  obtain summary where s: "summaryOfDownloads (Some data) = Inr summary"
    and rest: "weeklySums summary = weeklyLoop (case total data of None \<Rightarrow> [] | Some t \<Rightarrow> t) 0 []"
      "monthlySums summary = monthlyLoop (case total data of None \<Rightarrow> [] | Some t \<Rightarrow> t) 0 []"
      "activityEntries summary
         = int (length (slice_from (case total data of None \<Rightarrow> [] | Some t \<Rightarrow> t) (- 30)))"
      "DownloadSummary.error summary = None"
    using summaryOfDownloads_Some by blast
  have "getPackageDownloadSummary getPackageDownloads scope' packageName = Inr summary"
    using assms s by (simp add: summary_resolved)
  then show ?thesis using rest by blast
qed

lemma upt4: "[0..<4] = [0, 1, 2, 3]"
  by (simp add: upt_rec)

lemma Math_round_0: "Math_round (toDouble 0) = 0"
proof -
  have "\<lfloor>(1::rat) / 2\<rfloor> = 0" by (rule floor_unique) simp_all
  then show ?thesis by (simp add: Math_round_def toDouble_def)
qed

lemma sumCounts_Nil: "sumCounts [] = 0"
  by (simp add: sumCounts_def)

lemma weeklyLoop_Nil: "weeklyLoop [] 0 [] = []"
  using weeklyLoop_from [of 0 "[]" "[]"] by simp

lemma monthlyLoop_Nil: "monthlyLoop [] 0 [] = []"
  using monthlyLoop_from [of 0 "[]" "[]"] by simp

section \<open>The download summary\<close>

text \<open>
  C1: when the download data of a package arrives, the \<open>weeklySums\<close> of its summary are
  the sums of the trailing windows of seven points, the oldest first: window \<open>i\<close> is the
  points \<open>[len - 7 * (i + 1), len - 7 * i)\<close> of the total series, for those \<open>i\<close> below
  four whose window starts at an index that is not negative. A series of five points
  has no weekly sum.
\<close>

theorem weeklySums_trailing_windows:
  assumes "getPackageDownloads scope' packageName = Resolved (Some data)"
    and "totalData = (case total data of None \<Rightarrow> [] | Some t \<Rightarrow> t)"
  shows "\<exists>summary.
      getPackageDownloadSummary getPackageDownloads scope' packageName = Inr summary
      \<and> weeklySums summary
          = map (\<lambda>i. \<Sum>j = length totalData - 7 * (i + 1)..<length totalData - 7 * i.
                        JsrDownloadPoint.count (totalData ! j))
              (rev (filter (\<lambda>i. 7 * (i + 1) \<le> length totalData) [0..<4]))
      \<and> (length totalData = 5 \<longrightarrow> weeklySums summary = [])"
proof -
  obtain summary where s: "getPackageDownloadSummary getPackageDownloads scope' packageName = Inr summary"
    and w: "weeklySums summary = weeklyLoop totalData 0 []"
    using summary_of_data [of getPackageDownloads scope' packageName data] assms by auto
  have eq: "weeklySums summary
      = map (windowSum 7 totalData) (rev (filter (\<lambda>i. 7 * (i + 1) \<le> length totalData) [0..<4]))"
    using weeklyLoop_from [of 0 totalData "[]"] w by simp
  have five: "length totalData = 5 \<Longrightarrow> weeklySums summary = []"
    unfolding eq by simp
  show ?thesis
    using s eq five unfolding windowSum_def by blast
qed

text \<open>
  A series of nine points with the counts one to nine has the one weekly sum
  \<open>3 + 4 + 5 + 6 + 7 + 8 + 9\<close>; its first five points have none.
\<close>

theorem weeklySums_trailing_windows_witness:
  "(\<exists>summary. getPackageDownloadSummary (seriesRegistry nineDays) ''std'' ''http'' = Inr summary
      \<and> weeklySums summary = [42])
   \<and> (\<exists>summary. getPackageDownloadSummary (seriesRegistry (take 5 nineDays)) ''std'' ''http''
                  = Inr summary
      \<and> weeklySums summary = [])"
proof
  have len: "length nineDays = 9" by (simp add: nineDays_def)
  have nth: "(\<Sum>j = 2..<9. JsrDownloadPoint.count (nineDays ! j)) = 42"
    by (simp add: nineDays_def day_def sum.atLeast_Suc_lessThan numeral_eq_Suc)
  show "\<exists>summary. getPackageDownloadSummary (seriesRegistry nineDays) ''std'' ''http'' = Inr summary
      \<and> weeklySums summary = [42]"
    using weeklySums_trailing_windows [of "seriesRegistry nineDays" "''std''" "''http''"
        "\<lparr>total = Some nineDays,
          recentVersions = Some [\<lparr>version = ''1.0.0'',
                                   JsrVersionDownloads.downloads = Some nineDays\<rparr>]\<rparr>" nineDays]
    by (simp add: seriesRegistry_def len upt4 nth)
  show "\<exists>summary. getPackageDownloadSummary (seriesRegistry (take 5 nineDays)) ''std'' ''http''
                  = Inr summary
      \<and> weeklySums summary = []"
    using weeklySums_trailing_windows
      [of "seriesRegistry (take 5 nineDays)" "''std''" "''http''"
        "\<lparr>total = Some (take 5 nineDays),
          recentVersions = Some [\<lparr>version = ''1.0.0'',
                                   JsrVersionDownloads.downloads = Some (take 5 nineDays)\<rparr>]\<rparr>"
        "take 5 nineDays"]
    by (simp add: seriesRegistry_def len)
qed

text \<open>
  C6: when the download data of a package arrives, the \<open>monthlySums\<close> of its summary
  have length \<open>min 6 (len div 30)\<close>; they are the sums of the trailing windows of thirty
  points, the oldest first, and each of these windows lies within the series.
\<close>

theorem monthlySums_bucket_count:
  assumes "getPackageDownloads scope' packageName = Resolved (Some data)"
    and "totalData = (case total data of None \<Rightarrow> [] | Some t \<Rightarrow> t)"
  shows "\<exists>summary.
      getPackageDownloadSummary getPackageDownloads scope' packageName = Inr summary
      \<and> length (monthlySums summary) = min 6 (length totalData div 30)
      \<and> monthlySums summary
          = map (\<lambda>i. \<Sum>j = length totalData - 30 * (i + 1)..<length totalData - 30 * i.
                        JsrDownloadPoint.count (totalData ! j))
              (rev [0..<min 6 (length totalData div 30)])
      \<and> (\<forall>i < min 6 (length totalData div 30). 30 * (i + 1) \<le> length totalData)"
proof -
  obtain summary where s: "getPackageDownloadSummary getPackageDownloads scope' packageName = Inr summary"
    and m: "monthlySums summary = monthlyLoop totalData 0 []"
    using summary_of_data [of getPackageDownloads scope' packageName data] assms by auto
  have eq: "monthlySums summary
      = map (windowSum 30 totalData) (rev [0..<min 6 (length totalData div 30)])"
    using monthlyLoop_from [of 0 totalData "[]"] m full_windows_prefix [of 30 "length totalData" 6]
    by simp
  have len: "length (monthlySums summary) = min 6 (length totalData div 30)"
    unfolding eq by simp
  have full: "\<forall>i < min 6 (length totalData div 30). 30 * (i + 1) \<le> length totalData"
    by auto
  show ?thesis
    using s eq len full unfolding windowSum_def by blast
qed

text \<open>
  A series of 31 points, two downloads each, has the one monthly sum 60.
\<close>

theorem monthlySums_bucket_count_witness:
  "\<exists>summary.
     getPackageDownloadSummary (seriesRegistry (replicate 31 (day ''2025-06-01'' 2)))
       ''std'' ''http'' = Inr summary
     \<and> length (monthlySums summary) = 1
     \<and> monthlySums summary = [60]"
proof -
  show ?thesis
    using monthlySums_bucket_count
      [of "seriesRegistry (replicate 31 (day ''2025-06-01'' 2))" "''std''" "''http''"
        "\<lparr>total = Some (replicate 31 (day ''2025-06-01'' 2)),
          recentVersions =
            Some [\<lparr>version = ''1.0.0'',
                   JsrVersionDownloads.downloads = Some (replicate 31 (day ''2025-06-01'' 2))\<rparr>]\<rparr>"
        "replicate 31 (day ''2025-06-01'' 2)"]
    by (simp add: seriesRegistry_def day_def)
qed

text \<open>
  C10: when the download data of a package arrives, the \<open>activityEntries\<close> of its
  summary is the smaller of 30 and the length of the total series.
\<close>

theorem activityEntries_recent_window:
  assumes "getPackageDownloads scope' packageName = Resolved (Some data)"
    and "totalData = (case total data of None \<Rightarrow> [] | Some t \<Rightarrow> t)"
  shows "\<exists>summary.
      getPackageDownloadSummary getPackageDownloads scope' packageName = Inr summary
      \<and> activityEntries summary = int (min (length totalData) 30)"
proof -
  obtain summary where s: "getPackageDownloadSummary getPackageDownloads scope' packageName = Inr summary"
    and a: "activityEntries summary = int (length (slice_from totalData (- 30)))"
    using summary_of_data [of getPackageDownloads scope' packageName data] assms by auto
  have "length (slice_from totalData (- 30)) = min (length totalData) 30"
    using length_slice_from_neg [of 30 totalData] by simp
  then show ?thesis using s a by simp
qed

text \<open>
  A series of 45 points has 30 activity entries, a series of nine points has nine.
\<close>

theorem activityEntries_recent_window_witness:
  "(\<exists>summary.
      getPackageDownloadSummary (seriesRegistry (replicate 45 (day ''2025-06-01'' 2)))
        ''std'' ''http'' = Inr summary
      \<and> activityEntries summary = 30)
   \<and> (\<exists>summary.
      getPackageDownloadSummary (seriesRegistry nineDays) ''std'' ''http'' = Inr summary
      \<and> activityEntries summary = 9)"
proof
  show "\<exists>summary.
      getPackageDownloadSummary (seriesRegistry (replicate 45 (day ''2025-06-01'' 2)))
        ''std'' ''http'' = Inr summary
      \<and> activityEntries summary = 30"
    using activityEntries_recent_window
      [of "seriesRegistry (replicate 45 (day ''2025-06-01'' 2))" "''std''" "''http''"
        "\<lparr>total = Some (replicate 45 (day ''2025-06-01'' 2)),
          recentVersions =
            Some [\<lparr>version = ''1.0.0'',
                   JsrVersionDownloads.downloads = Some (replicate 45 (day ''2025-06-01'' 2))\<rparr>]\<rparr>"
        "replicate 45 (day ''2025-06-01'' 2)"]
    by (simp add: seriesRegistry_def)
  have len: "length nineDays = 9" by (simp add: nineDays_def)
  show "\<exists>summary.
      getPackageDownloadSummary (seriesRegistry nineDays) ''std'' ''http'' = Inr summary
      \<and> activityEntries summary = 9"
    using activityEntries_recent_window
      [of "seriesRegistry nineDays" "''std''" "''http''"
        "\<lparr>total = Some nineDays,
          recentVersions =
            Some [\<lparr>version = ''1.0.0'',
                   JsrVersionDownloads.downloads = Some nineDays\<rparr>]\<rparr>"
        nineDays]
    by (simp add: seriesRegistry_def len)
qed

text \<open>
  C2 as stated fails: the summary of a package whose download data arrives with an
  empty series has no \<open>error\<close>.
\<close>

theorem empty_series_reports_no_error:
  "getPackageDownloadSummary emptySeriesRegistry ''std'' ''http''
     = Inr \<lparr>DownloadSummary.totalDownloads = 0, DownloadSummary.recentDownloads = 0,
            DownloadSummary.latestVersion = ''Unknown'',
            latestVersionDownloads = 0, activityEntries = 0, lastActivity = None,
            last7DaysAverage = 0, weeklyAverage = 0, monthlyAverage = 0,
            weeklySums = [], monthlySums = [],
            DownloadSummary.error = None\<rparr>"
  by (simp add: getPackageDownloadSummary_def emptySeriesRegistry_def summaryOfDownloads_def
      Let_def slice_from_Nil sumCounts_Nil Math_round_0 weeklyLoop_Nil monthlyLoop_Nil)

text \<open>
  C2, amended: when the fetch of the download data fails, every number of the summary
  is zero, the latest version is \<open>Unknown\<close>, both lists of sums are empty and
  \<open>error\<close> is the message of the failure. When the data arrives with an empty or
  missing total series, every field computed from that series is zero or empty and
  \<open>error\<close> is not set; the latest version and its downloads are those of the first
  recent version (its version string, \<open>Unknown\<close> when that is empty, and the sum of the
  counts of its own points, zero when it has none), \<open>Unknown\<close> and zero when there is
  no recent version.
\<close>

theorem degraded_summary:
  "(getPackageDownloads scope' packageName = Rejected e \<longrightarrow>
      getPackageDownloadSummary getPackageDownloads scope' packageName
        = Inr \<lparr>DownloadSummary.totalDownloads = 0, DownloadSummary.recentDownloads = 0,
            DownloadSummary.latestVersion = ''Unknown'',
               latestVersionDownloads = 0, activityEntries = 0, lastActivity = None,
               last7DaysAverage = 0, weeklyAverage = 0, monthlyAverage = 0,
               weeklySums = [], monthlySums = [],
            DownloadSummary.error = Some (getErrorMessage e)\<rparr>)
   \<and> (getPackageDownloads scope' packageName = Resolved (Some data)
        \<and> (total data = None \<or> total data = Some []) \<longrightarrow>
      (\<exists>summary.
         getPackageDownloadSummary getPackageDownloads scope' packageName = Inr summary
         \<and> DownloadSummary.totalDownloads summary = 0
         \<and> DownloadSummary.recentDownloads summary = 0
         \<and> activityEntries summary = 0
         \<and> lastActivity summary = None
         \<and> last7DaysAverage summary = 0
         \<and> weeklyAverage summary = 0
         \<and> monthlyAverage summary = 0
         \<and> weeklySums summary = []
         \<and> monthlySums summary = []
         \<and> DownloadSummary.error summary = None
         \<and> (recentVersions data = None \<or> recentVersions data = Some [] \<longrightarrow>
              DownloadSummary.latestVersion summary = ''Unknown''
              \<and> latestVersionDownloads summary = 0)
         \<and> (\<forall>v rest. recentVersions data = Some (v # rest) \<longrightarrow>
              DownloadSummary.latestVersion summary
                = (if version v = [] then ''Unknown'' else version v)
              \<and> latestVersionDownloads summary
                = (case JsrVersionDownloads.downloads v of
                     None \<Rightarrow> 0
                   | Some points \<Rightarrow> sum_list (map JsrDownloadPoint.count points)))))"
proof (intro conjI impI)
  assume "getPackageDownloads scope' packageName = Rejected e"
  then show "getPackageDownloadSummary getPackageDownloads scope' packageName
        = Inr \<lparr>DownloadSummary.totalDownloads = 0, DownloadSummary.recentDownloads = 0,
            DownloadSummary.latestVersion = ''Unknown'',
               latestVersionDownloads = 0, activityEntries = 0, lastActivity = None,
               last7DaysAverage = 0, weeklyAverage = 0, monthlyAverage = 0,
               weeklySums = [], monthlySums = [],
            DownloadSummary.error = Some (getErrorMessage e)\<rparr>"
    by (simp add: getPackageDownloadSummary_def summaryOfFailure_def)
next
  assume h: "getPackageDownloads scope' packageName = Resolved (Some data)
        \<and> (total data = None \<or> total data = Some [])"
  then have r: "getPackageDownloadSummary getPackageDownloads scope' packageName
      = (case summaryOfDownloads (Some data) of
          Inr summary \<Rightarrow> Inr summary | Inl e \<Rightarrow> Inr (summaryOfFailure e))"
    by (simp add: summary_resolved)
  from h have "total data = None \<or> total data = Some []" by simp
  then show "\<exists>summary.
         getPackageDownloadSummary getPackageDownloads scope' packageName = Inr summary
         \<and> DownloadSummary.totalDownloads summary = 0
         \<and> DownloadSummary.recentDownloads summary = 0
         \<and> activityEntries summary = 0
         \<and> lastActivity summary = None
         \<and> last7DaysAverage summary = 0
         \<and> weeklyAverage summary = 0
         \<and> monthlyAverage summary = 0
         \<and> weeklySums summary = []
         \<and> monthlySums summary = []
         \<and> DownloadSummary.error summary = None
         \<and> (recentVersions data = None \<or> recentVersions data = Some [] \<longrightarrow>
              DownloadSummary.latestVersion summary = ''Unknown''
              \<and> latestVersionDownloads summary = 0)
         \<and> (\<forall>v rest. recentVersions data = Some (v # rest) \<longrightarrow>
              DownloadSummary.latestVersion summary
                = (if version v = [] then ''Unknown'' else version v)
              \<and> latestVersionDownloads summary
                = (case JsrVersionDownloads.downloads v of
                     None \<Rightarrow> 0
                   | Some points \<Rightarrow> sum_list (map JsrDownloadPoint.count points)))"
    unfolding r
    by (auto simp add: summaryOfDownloads_def Let_def slice_from_Nil sumCounts_Nil Math_round_0
        weeklyLoop_Nil monthlyLoop_Nil truthy_def sumCounts_sum_list split: option.splits)
qed

text \<open>
  The registry that answers 404, the registry with an empty series, and the registry
  with an empty series and the downloads of version 2.1.0.
\<close>

theorem degraded_summary_witness:
  "getPackageDownloadSummary failingRegistry ''std'' ''http''
     = Inr \<lparr>DownloadSummary.totalDownloads = 0, DownloadSummary.recentDownloads = 0,
            DownloadSummary.latestVersion = ''Unknown'',
            latestVersionDownloads = 0, activityEntries = 0, lastActivity = None,
            last7DaysAverage = 0, weeklyAverage = 0, monthlyAverage = 0,
            weeklySums = [], monthlySums = [],
            DownloadSummary.error = Some ''HTTP error! status: 404''\<rparr>
   \<and> (\<exists>summary.
         getPackageDownloadSummary emptySeriesRegistry ''std'' ''http'' = Inr summary
         \<and> DownloadSummary.totalDownloads summary = 0
         \<and> weeklySums summary = []
         \<and> DownloadSummary.error summary = None
         \<and> DownloadSummary.latestVersion summary = ''Unknown'')
   \<and> (\<exists>summary.
         getPackageDownloadSummary versionOnlyRegistry ''std'' ''http'' = Inr summary
         \<and> DownloadSummary.totalDownloads summary = 0
         \<and> DownloadSummary.error summary = None
         \<and> DownloadSummary.latestVersion summary = ''2.1.0''
         \<and> latestVersionDownloads summary = 45)"
proof -
  have nine: "sum_list (map JsrDownloadPoint.count nineDays) = 45"
    by (simp add: nineDays_def day_def)
  show ?thesis
    using degraded_summary [of failingRegistry "''std''" "''http''"
        "JsError ''HTTP error! status: 404''" "\<lparr>total = Some [], recentVersions = Some []\<rparr>"]
      degraded_summary [of emptySeriesRegistry "''std''" "''http''" "JsError ''x''"
        "\<lparr>total = Some [], recentVersions = Some []\<rparr>"]
      degraded_summary [of versionOnlyRegistry "''std''" "''http''" "JsError ''x''"
        "\<lparr>total = Some [],
          recentVersions =
            Some [\<lparr>version = ''2.1.0'',
                   JsrVersionDownloads.downloads = Some nineDays\<rparr>]\<rparr>"]
    by (auto simp add: failingRegistry_def emptySeriesRegistry_def versionOnlyRegistry_def nine)
qed

text \<open>
  C7: \<^verbatim>\<open>getPackageDownloadSummary\<close> returns a summary whatever the registry does. A
  rejection of the fetch is caught: its message is the \<open>error\<close> of the summary; and
  whenever no download data arrives (a rejection, or a body \<^verbatim>\<open>null\<close> that makes the
  \<^verbatim>\<open>try\<close> block throw), \<open>error\<close> is set and every number of the summary is zero.
\<close>

theorem getPackageDownloadSummary_never_throws:
  "\<exists>summary.
     getPackageDownloadSummary getPackageDownloads scope' packageName = Inr summary
     \<and> (\<forall>e. getPackageDownloads scope' packageName = Rejected e \<longrightarrow>
           DownloadSummary.error summary = Some (getErrorMessage e))
     \<and> ((\<forall>data. getPackageDownloads scope' packageName \<noteq> Resolved (Some data)) \<longrightarrow>
           DownloadSummary.error summary \<noteq> None
           \<and> DownloadSummary.totalDownloads summary = 0
           \<and> DownloadSummary.recentDownloads summary = 0
           \<and> latestVersionDownloads summary = 0
           \<and> activityEntries summary = 0
           \<and> last7DaysAverage summary = 0
           \<and> weeklyAverage summary = 0
           \<and> monthlyAverage summary = 0
           \<and> weeklySums summary = []
           \<and> monthlySums summary = [])"
proof (cases "getPackageDownloads scope' packageName")
  case (Rejected e)
  then show ?thesis
    by (simp add: getPackageDownloadSummary_def summaryOfFailure_def)
next
  case (Resolved response)
  show ?thesis
  proof (cases response)
    case None
    then show ?thesis using Resolved
      by (simp add: getPackageDownloadSummary_def summaryOfFailure_def summaryOfDownloads_def)
  next
    case (Some data)
    then show ?thesis
      using Resolved summary_of_data [of getPackageDownloads scope' packageName data] by auto
  qed
qed

text \<open>
  The registry that answers 404.
\<close>

theorem getPackageDownloadSummary_never_throws_witness:
  "\<exists>summary.
     getPackageDownloadSummary failingRegistry ''std'' ''http'' = Inr summary
     \<and> DownloadSummary.error summary = Some ''HTTP error! status: 404''
     \<and> DownloadSummary.totalDownloads summary = 0
     \<and> weeklySums summary = []"
  using getPackageDownloadSummary_never_throws [of failingRegistry "''std''" "''http''"]
  by (auto simp add: failingRegistry_def)

section \<open>Searches\<close>

lemma queryOrama_sent: "snd (queryOrama client query options) = [searchParams query options]"
  by (simp add: queryOrama_def Let_def)

lemma queryOrama_resolved:
  "client (searchParams query options) = Resolved (Some res) \<Longrightarrow>
   fst (queryOrama client query options) = res"
  by (simp add: queryOrama_def Let_def)

lemma queryOrama_no_data:
  "\<forall>res. client (searchParams query options) \<noteq> Resolved (Some res) \<Longrightarrow>
   OramaSearchResult.hits (fst (queryOrama client query options)) = Some []
   \<and> OramaSearchResult.error (fst (queryOrama client query options)) \<noteq> None"
  by (auto simp add: queryOrama_def Let_def split: outcome.splits option.splits thrown.splits)

lemma findSimilarPackages_unfold:
  "findSimilarPackages client getPackageDownloads packageName options =
     (case OramaSearchResult.hits (fst (queryOrama client packageName resolveOptions)) of
        None \<Rightarrow>
          (\<lparr>EnhancedOramaSearchResult.count = 0, hits = [],
            error = Some ''Package not found'', originalPackage = None\<rparr>,
           [searchParams packageName resolveOptions])
      | Some [] \<Rightarrow>
          (\<lparr>EnhancedOramaSearchResult.count = 0, hits = [],
            error = Some ''Package not found'', originalPackage = None\<rparr>,
           [searchParams packageName resolveOptions])
      | Some (first # rest) \<Rightarrow>
          (let pkg = document first;
               searchQuery = trim (PackageInfo.name pkg @ '' '' @ PackageInfo.description pkg);
               limitedResults =
                 slice
                   (case OramaSearchResult.hits
                           (fst (queryOrama client searchQuery (similarOptions options))) of
                      None \<Rightarrow> []
                    | Some hs \<Rightarrow>
                        filter (\<lambda>hit. PackageInfo.id' (document hit) \<noteq> PackageInfo.id' pkg) hs)
                   0 (orNumber (OramaSearchOptions.limit options) 10);
               enhancedHits =
                 (if OramaSearchOptions.includeDownloads options \<noteq> Some False
                  then map (withDownloads getPackageDownloads) limitedResults
                  else map (\<lambda>hit. \<lparr>document = document hit, score = score hit,
                                     downloads = None\<rparr>) limitedResults)
           in (\<lparr>EnhancedOramaSearchResult.count = int (length enhancedHits),
                hits = enhancedHits, error = None, originalPackage = Some pkg\<rparr>,
               [searchParams packageName resolveOptions,
                searchParams searchQuery (similarOptions options)])))"
  unfolding findSimilarPackages_def resolveOptions_def [symmetric] similarOptions_def [symmetric]
  by (simp add: Let_def split_beta queryOrama_sent split: option.splits list.splits)

lemma resolve_request:
  "searchParams packageName resolveOptions =
     \<lparr>term' = packageName, SearchParams.limit = 1, SearchParams.offset = 0,
      SearchParams.boost = [(''name'', 5), (''scope'', 3), (''id'', 2)],
      SearchParams.mode = fulltext, SearchParams.includeDownloads = None\<rparr>"
  by (simp add: searchParams_def resolveOptions_def orNumber_def)

lemma similar_request:
  "searchParams query (similarOptions options) =
     \<lparr>term' = query,
      SearchParams.limit = (case OramaSearchOptions.limit options of Some l \<Rightarrow> l | None \<Rightarrow> 11),
      SearchParams.offset =
        (case OramaSearchOptions.offset options of Some off \<Rightarrow> off | None \<Rightarrow> 0),
      SearchParams.boost =
        (case OramaSearchOptions.boost options of
           Some b \<Rightarrow> b
         | None \<Rightarrow> [(''description'', 2.5), (''name'', 1.8), (''scope'', 1.0), (''id'', 0.2)]),
      SearchParams.mode =
        (case OramaSearchOptions.mode options of Some m \<Rightarrow> m | None \<Rightarrow> fulltext),
      SearchParams.includeDownloads = OramaSearchOptions.includeDownloads options\<rparr>"
  by (simp add: searchParams_def similarOptions_def orNumber_def split: option.splits)

lemma set_slice_subset: "set (slice xs a b) \<subseteq> set xs"
proof -
  have "set (take n (drop m xs)) \<subseteq> set xs" for n m
    using set_take_subset [of n "drop m xs"] set_drop_subset [of m xs] by blast
  then show ?thesis by (simp add: slice_def Let_def)
qed

lemma document_withDownloads [simp]:
  "document (withDownloads getPackageDownloads hit) = document hit"
  by (simp add: withDownloads_def split: sum.splits)

lemma score_withDownloads [simp]:
  "score (withDownloads getPackageDownloads hit) = score hit"
  by (simp add: withDownloads_def split: sum.splits)

lemma downloads_withDownloads:
  "downloads (withDownloads getPackageDownloads hit) =
     (case getPackageDownloadSummary getPackageDownloads
             (PackageInfo.scope (document hit)) (PackageInfo.name (document hit)) of
        Inl e \<Rightarrow> None
      | Inr summary \<Rightarrow> if reportsError summary then None else Some summary)"
  by (simp add: withDownloads_def split: sum.splits)

text \<open>The outcome of a resolved call, with the names of the source.\<close>

lemma findSimilarPackages_resolved:
  assumes "findSimilarPackages client getPackageDownloads packageName options = (result, sent)"
    and "originalPackage result = Some pkg"
  shows "\<exists>first rest.
      OramaSearchResult.hits (fst (queryOrama client packageName resolveOptions))
        = Some (first # rest)
      \<and> pkg = document first
      \<and> sent = [searchParams packageName resolveOptions,
                 searchParams (trim (PackageInfo.name pkg @ '' '' @ PackageInfo.description pkg))
                   (similarOptions options)]
      \<and> EnhancedOramaSearchResult.error result = None
      \<and> EnhancedOramaSearchResult.count result
          = int (length (EnhancedOramaSearchResult.hits result))
      \<and> EnhancedOramaSearchResult.hits result
          = (let limitedResults =
                   slice
                     (case OramaSearchResult.hits
                             (fst (queryOrama client
                                     (trim (PackageInfo.name pkg @ '' '' @ PackageInfo.description pkg))
                                     (similarOptions options))) of
                        None \<Rightarrow> []
                      | Some hs \<Rightarrow>
                          filter (\<lambda>hit. PackageInfo.id' (document hit) \<noteq> PackageInfo.id' pkg) hs)
                     0 (orNumber (OramaSearchOptions.limit options) 10)
             in if OramaSearchOptions.includeDownloads options \<noteq> Some False
                then map (withDownloads getPackageDownloads) limitedResults
                else map (\<lambda>hit. \<lparr>document = document hit, score = score hit,
                                   downloads = None\<rparr>) limitedResults)"
proof (cases "OramaSearchResult.hits (fst (queryOrama client packageName resolveOptions))")
  case None
  then show ?thesis
    using assms by (auto simp add: findSimilarPackages_unfold)
next
  case (Some hs)
  show ?thesis
  proof (cases hs)
    case Nil
    then show ?thesis
      using assms Some by (auto simp add: findSimilarPackages_unfold)
  next
    case (Cons first rest)
    then show ?thesis
      using assms Some by (auto simp add: findSimilarPackages_unfold Let_def)
  qed
qed

lemma findSimilarPackages_unresolved:
  assumes "findSimilarPackages client getPackageDownloads packageName options = (result, sent)"
    and "originalPackage result = None"
  shows "EnhancedOramaSearchResult.hits result = []
      \<and> EnhancedOramaSearchResult.error result = Some ''Package not found''"
  using assms
  by (auto simp add: findSimilarPackages_unfold Let_def split: option.splits list.splits)

lemma resolved_first_hit:
  assumes "findSimilarPackages client getPackageDownloads packageName options = (result, sent)"
    and "client (hd sent) = Resolved (Some res)"
    and "OramaSearchResult.hits res = Some (first # rest)"
  shows "originalPackage result = Some (document first)"
proof -
  have hd: "hd sent = searchParams packageName resolveOptions"
    using assms(1)
    by (auto simp add: findSimilarPackages_unfold Let_def split: option.splits list.splits)
  then have "fst (queryOrama client packageName resolveOptions) = res"
    using assms(2) by (simp add: queryOrama_resolved)
  then show ?thesis
    using assms(1,3) by (auto simp add: findSimilarPackages_unfold Let_def)
qed

text \<open>
  C4: whatever the backend answers, no hit that \<^verbatim>\<open>findSimilarPackages\<close> returns has the
  id of the original package, whatever its score and rank; when no package is resolved
  there is no hit at all. The original package is the document of the first hit that
  the backend returns for the first request.
\<close>

theorem findSimilarPackages_excludes_original:
  assumes "findSimilarPackages client getPackageDownloads packageName options = (result, sent)"
  shows "(\<forall>pkg. originalPackage result = Some pkg \<longrightarrow>
            (\<forall>hit \<in> set (EnhancedOramaSearchResult.hits result).
               PackageInfo.id' (document hit) \<noteq> PackageInfo.id' pkg))
       \<and> (originalPackage result = None \<longrightarrow> EnhancedOramaSearchResult.hits result = [])
       \<and> (\<forall>res first rest.
            client (hd sent) = Resolved (Some res)
            \<and> OramaSearchResult.hits res = Some (first # rest) \<longrightarrow>
            originalPackage result = Some (document first))"
proof (intro conjI allI impI)
  fix pkg
  assume r: "originalPackage result = Some pkg"
  define candidates where "candidates =
    (case OramaSearchResult.hits
            (fst (queryOrama client
                    (trim (PackageInfo.name pkg @ '' '' @ PackageInfo.description pkg))
                    (similarOptions options))) of
       None \<Rightarrow> []
     | Some hs \<Rightarrow> filter (\<lambda>hit. PackageInfo.id' (document hit) \<noteq> PackageInfo.id' pkg) hs)"
  define limitedResults where
    "limitedResults = slice candidates 0 (orNumber (OramaSearchOptions.limit options) 10)"
  have c: "\<forall>hit \<in> set candidates. PackageInfo.id' (document hit) \<noteq> PackageInfo.id' pkg"
    by (auto simp add: candidates_def split: option.splits)
  have l: "\<forall>hit \<in> set limitedResults. PackageInfo.id' (document hit) \<noteq> PackageInfo.id' pkg"
    using c set_slice_subset [of candidates 0 "orNumber (OramaSearchOptions.limit options) 10"]
    unfolding limitedResults_def by blast
  have h: "EnhancedOramaSearchResult.hits result
      = (if OramaSearchOptions.includeDownloads options \<noteq> Some False
         then map (withDownloads getPackageDownloads) limitedResults
         else map (\<lambda>hit. \<lparr>document = document hit, score = score hit,
                            downloads = None\<rparr>) limitedResults)"
    using findSimilarPackages_resolved [OF assms r]
    unfolding limitedResults_def candidates_def Let_def by blast
  show "\<forall>hit \<in> set (EnhancedOramaSearchResult.hits result).
          PackageInfo.id' (document hit) \<noteq> PackageInfo.id' pkg"
    unfolding h using l by auto
next
  assume "originalPackage result = None"
  then show "EnhancedOramaSearchResult.hits result = []"
    using findSimilarPackages_unresolved [OF assms] by simp
next
  fix res first rest
  assume "client (hd sent) = Resolved (Some res)
            \<and> OramaSearchResult.hits res = Some (first # rest)"
  then show "originalPackage result = Some (document first)"
    using resolved_first_hit [OF assms] by blast
qed

lemma ranking_resolves:
  "fst (queryOrama rankingBackend query options)
     = \<lparr>OramaSearchResult.count = 3,
        hits = Some [\<lparr>document = stdHttp, score = 9\<rparr>,
                     \<lparr>document = stdNet, score = 7\<rparr>,
                     \<lparr>document = honoHono, score = 4\<rparr>],
        error = None\<rparr>"
  by (simp add: queryOrama_def rankingBackend_def Let_def)

lemma ranking_original:
  "originalPackage (fst (findSimilarPackages rankingBackend getPackageDownloads packageName options))
     = Some stdHttp"
  by (simp add: findSimilarPackages_unfold ranking_resolves Let_def)

lemma example_ids:
  "PackageInfo.id' stdHttp = ''@std/http''" "PackageInfo.id' stdNet = ''@std/net''"
  "PackageInfo.id' honoHono = ''@hono/hono''"
  by (simp_all add: stdHttp_def stdNet_def honoHono_def package_def)

lemma slice_all: "0 \<le> b \<Longrightarrow> int (length xs) \<le> b \<Longrightarrow> slice xs 0 b = xs"
  by (simp add: slice_def Let_def)

lemma ranking_hits:
  "map document
     (EnhancedOramaSearchResult.hits
        (fst (findSimilarPackages rankingBackend getPackageDownloads packageName limitFive)))
     = [stdNet, honoHono]"
  by (simp add: findSimilarPackages_unfold ranking_resolves Let_def example_ids slice_all
      limitFive_def orNumber_def comp_def)

text \<open>
  The backend ranks \<open>@std/http\<close> first; the hits returned for \<open>@std/http\<close> are the
  two other packages.
\<close>

theorem findSimilarPackages_excludes_original_witness:
  "''@std/http''
     \<notin> set (map (\<lambda>hit. PackageInfo.id' (document hit))
               (EnhancedOramaSearchResult.hits
                  (fst (findSimilarPackages rankingBackend partialRegistry ''@std/http''
                          limitFive))))
   \<and> map document
        (EnhancedOramaSearchResult.hits
           (fst (findSimilarPackages rankingBackend partialRegistry ''@std/http'' limitFive)))
      = [stdNet, honoHono]"
  using findSimilarPackages_excludes_original
    [of rankingBackend partialRegistry "''@std/http''" limitFive
      "fst (findSimilarPackages rankingBackend partialRegistry ''@std/http'' limitFive)"
      "snd (findSimilarPackages rankingBackend partialRegistry ''@std/http'' limitFive)"]
  by (auto simp add: ranking_original ranking_hits example_ids)

text \<open>
  C5, as the code has it: when the package is resolved, two requests are sent, and the
  second asks for the limit of the caller when the caller gives one (for eleven results
  when not), with the boosts of the caller when the caller gives some (the boosts
  weighted towards the description when not). The limit of the caller is not
  incremented: \<^verbatim>\<open>...options\<close> overwrites \<^verbatim>\<open>(options.limit || 10) + 1\<close>.
\<close>

theorem similar_search_request:
  assumes "findSimilarPackages client getPackageDownloads packageName options = (result, sent)"
    and "originalPackage result = Some pkg"
  shows "length sent = 2
     \<and> term' (sent ! 1) = trim (PackageInfo.name pkg @ '' '' @ PackageInfo.description pkg)
     \<and> SearchParams.limit (sent ! 1)
         = (case OramaSearchOptions.limit options of Some l \<Rightarrow> l | None \<Rightarrow> 11)
     \<and> SearchParams.boost (sent ! 1)
         = (case OramaSearchOptions.boost options of
              Some b \<Rightarrow> b
            | None \<Rightarrow> [(''description'', 2.5), (''name'', 1.8), (''scope'', 1.0), (''id'', 0.2)])"
  using findSimilarPackages_resolved [OF assms]
  by (auto simp add: similar_request)

text \<open>
  With \<^verbatim>\<open>{ limit: 5 }\<close> the second request asks for five results, not six.
\<close>

theorem similar_search_request_witness:
  "length (snd (findSimilarPackages rankingBackend partialRegistry ''@std/http'' limitFive)) = 2
   \<and> SearchParams.limit
        (snd (findSimilarPackages rankingBackend partialRegistry ''@std/http'' limitFive) ! 1) = 5
   \<and> SearchParams.boost
        (snd (findSimilarPackages rankingBackend partialRegistry ''@std/http'' limitFive) ! 1)
      = [(''description'', 2.5), (''name'', 1.8), (''scope'', 1.0), (''id'', 0.2)]"
  using similar_search_request
    [of rankingBackend partialRegistry "''@std/http''" limitFive
      "fst (findSimilarPackages rankingBackend partialRegistry ''@std/http'' limitFive)"
      "snd (findSimilarPackages rankingBackend partialRegistry ''@std/http'' limitFive)"
      stdHttp]
  by (simp add: ranking_original limitFive_def)

lemma summary_rejected:
  "getPackageDownloads scope' packageName = Rejected e \<Longrightarrow>
   getPackageDownloadSummary getPackageDownloads scope' packageName = Inr (summaryOfFailure e)"
  by (simp add: getPackageDownloadSummary_def)

lemma reportsError_failure: "reportsError (summaryOfFailure e) = truthy (getErrorMessage e)"
  by (simp add: reportsError_def summaryOfFailure_def)

lemma resolved_by_backend:
  assumes "client (searchParams packageName resolveOptions) = Resolved (Some answer)"
    and "OramaSearchResult.hits answer = Some (first # rest)"
  shows "originalPackage
           (fst (findSimilarPackages client getPackageDownloads packageName options))
         = Some (document first)"
proof -
  have "fst (queryOrama client packageName resolveOptions) = answer"
    using assms(1) by (simp add: queryOrama_resolved)
  then show ?thesis
    using assms(2) by (simp add: findSimilarPackages_unfold Let_def)
qed

lemma slice_Nil: "slice [] a b = []"
  by (simp add: slice_def Let_def)

text \<open>
  C3: with \<^verbatim>\<open>includeDownloads\<close> not \<^verbatim>\<open>false\<close>, when the backend answers the request
  that resolves the package with at least one hit, the call returns the document of the
  first hit as the original package and no error, whatever the registry does for the
  download data of the hits. The hits are the hits of the backend's answer to the
  second request without the original package, cut to the limit, in their order, none
  dropped (none when that request has no answer); and every hit has its own outcome:
  no \<open>downloads\<close> when its summary throws or reports an error (so when the fetch of its
  download data is rejected with a message that is not empty), and its summary when its
  download data arrives.
\<close>

theorem findSimilarPackages_partial_failure:
  assumes "OramaSearchOptions.includeDownloads options \<noteq> Some False"
    and "client \<lparr>term' = packageName, SearchParams.limit = 1, SearchParams.offset = 0,
                SearchParams.boost = [(''name'', 5), (''scope'', 3), (''id'', 2)],
                SearchParams.mode = fulltext, SearchParams.includeDownloads = None\<rparr>
           = Resolved (Some answer)"
    and "OramaSearchResult.hits answer = Some (first # rest)"
    and "findSimilarPackages client getPackageDownloads packageName options = (result, sent)"
  shows "originalPackage result = Some (document first)
     \<and> EnhancedOramaSearchResult.error result = None
     \<and> EnhancedOramaSearchResult.count result
         = int (length (EnhancedOramaSearchResult.hits result))
     \<and> length sent = 2
     \<and> (\<forall>res. client (sent ! 1) = Resolved (Some res) \<longrightarrow>
           map (\<lambda>hit. (document hit, score hit)) (EnhancedOramaSearchResult.hits result)
             = map (\<lambda>hit. (document hit, score hit))
                 (slice
                    (filter (\<lambda>hit. PackageInfo.id' (document hit)
                                    \<noteq> PackageInfo.id' (document first))
                       (case OramaSearchResult.hits res of None \<Rightarrow> [] | Some hs \<Rightarrow> hs))
                    0 (orNumber (OramaSearchOptions.limit options) 10)))
     \<and> ((\<forall>res. client (sent ! 1) \<noteq> Resolved (Some res)) \<longrightarrow>
           EnhancedOramaSearchResult.hits result = [])
     \<and> (\<forall>hit \<in> set (EnhancedOramaSearchResult.hits result).
           (\<forall>e. getPackageDownloadSummary getPackageDownloads
                   (PackageInfo.scope (document hit)) (PackageInfo.name (document hit)) = Inl e
                 \<longrightarrow> downloads hit = None)
         \<and> (\<forall>summary.
               getPackageDownloadSummary getPackageDownloads
                 (PackageInfo.scope (document hit)) (PackageInfo.name (document hit)) = Inr summary
               \<longrightarrow> downloads hit = (if reportsError summary then None else Some summary))
         \<and> (\<forall>e. getPackageDownloads
                   (PackageInfo.scope (document hit)) (PackageInfo.name (document hit)) = Rejected e
                 \<and> truthy (getErrorMessage e)
                 \<longrightarrow> downloads hit = None)
         \<and> (\<forall>data.
               getPackageDownloads
                 (PackageInfo.scope (document hit)) (PackageInfo.name (document hit))
                 = Resolved (Some data)
               \<longrightarrow> (\<exists>summary.
                      getPackageDownloadSummary getPackageDownloads
                        (PackageInfo.scope (document hit)) (PackageInfo.name (document hit))
                        = Inr summary
                      \<and> DownloadSummary.error summary = None
                      \<and> downloads hit = Some summary)))"
proof -
  define pkg where "pkg = document first"
  define query where
    "query = trim (PackageInfo.name pkg @ '' '' @ PackageInfo.description pkg)"
  define limitedResults where "limitedResults =
    slice
      (case OramaSearchResult.hits (fst (queryOrama client query (similarOptions options))) of
         None \<Rightarrow> []
       | Some hs \<Rightarrow> filter (\<lambda>hit. PackageInfo.id' (document hit) \<noteq> PackageInfo.id' pkg) hs)
      0 (orNumber (OramaSearchOptions.limit options) 10)"
  have orig: "originalPackage result = Some pkg"
    using resolved_by_backend [of client packageName answer first rest getPackageDownloads options]
      assms(2,3,4)
    unfolding pkg_def by (simp add: resolve_request)
  have r: "EnhancedOramaSearchResult.error result = None"
    "EnhancedOramaSearchResult.count result
       = int (length (EnhancedOramaSearchResult.hits result))"
    "sent = [searchParams packageName resolveOptions, searchParams query (similarOptions options)]"
    "EnhancedOramaSearchResult.hits result
       = map (withDownloads getPackageDownloads) limitedResults"
    using findSimilarPackages_resolved [OF assms(4) orig] assms(1)
    unfolding limitedResults_def query_def Let_def by auto
  have kept: "map (\<lambda>hit. (document hit, score hit)) (EnhancedOramaSearchResult.hits result)
      = map (\<lambda>hit. (document hit, score hit))
          (slice
             (filter (\<lambda>hit. PackageInfo.id' (document hit) \<noteq> PackageInfo.id' (document first))
                (case OramaSearchResult.hits res of None \<Rightarrow> [] | Some hs \<Rightarrow> hs))
             0 (orNumber (OramaSearchOptions.limit options) 10))"
    if "client (sent ! 1) = Resolved (Some res)" for res
  proof -
    have "fst (queryOrama client query (similarOptions options)) = res"
      using that r(3) by (simp add: queryOrama_resolved)
    then have "limitedResults
        = slice
            (filter (\<lambda>hit. PackageInfo.id' (document hit) \<noteq> PackageInfo.id' pkg)
               (case OramaSearchResult.hits res of None \<Rightarrow> [] | Some hs \<Rightarrow> hs))
            0 (orNumber (OramaSearchOptions.limit options) 10)"
      unfolding limitedResults_def by (simp split: option.splits)
    then show ?thesis by (simp add: r(4) comp_def pkg_def)
  qed
  have none: "EnhancedOramaSearchResult.hits result = []"
    if "\<forall>res. client (sent ! 1) \<noteq> Resolved (Some res)"
  proof -
    have "\<forall>res. client (searchParams query (similarOptions options)) \<noteq> Resolved (Some res)"
      using that r(3) by simp
    then have "OramaSearchResult.hits (fst (queryOrama client query (similarOptions options)))
        = Some []"
      using queryOrama_no_data [of client query "similarOptions options"] by simp
    then have "limitedResults = []"
      unfolding limitedResults_def by (simp add: slice_Nil)
    then show ?thesis by (simp add: r(4))
  qed
  have each: "(\<forall>e. getPackageDownloadSummary getPackageDownloads
                   (PackageInfo.scope (document hit)) (PackageInfo.name (document hit)) = Inl e
                 \<longrightarrow> downloads hit = None)
         \<and> (\<forall>summary.
               getPackageDownloadSummary getPackageDownloads
                 (PackageInfo.scope (document hit)) (PackageInfo.name (document hit)) = Inr summary
               \<longrightarrow> downloads hit = (if reportsError summary then None else Some summary))
         \<and> (\<forall>e. getPackageDownloads
                   (PackageInfo.scope (document hit)) (PackageInfo.name (document hit)) = Rejected e
                 \<and> truthy (getErrorMessage e)
                 \<longrightarrow> downloads hit = None)
         \<and> (\<forall>data.
               getPackageDownloads
                 (PackageInfo.scope (document hit)) (PackageInfo.name (document hit))
                 = Resolved (Some data)
               \<longrightarrow> (\<exists>summary.
                      getPackageDownloadSummary getPackageDownloads
                        (PackageInfo.scope (document hit)) (PackageInfo.name (document hit))
                        = Inr summary
                      \<and> DownloadSummary.error summary = None
                      \<and> downloads hit = Some summary))"
    if mem: "hit \<in> set (EnhancedOramaSearchResult.hits result)" for hit
  proof -
    obtain hit' where h: "hit = withDownloads getPackageDownloads hit'"
      using mem r(4) by auto
    have d: "downloads hit =
       (case getPackageDownloadSummary getPackageDownloads
               (PackageInfo.scope (document hit)) (PackageInfo.name (document hit)) of
          Inl e \<Rightarrow> None
        | Inr summary \<Rightarrow> if reportsError summary then None else Some summary)"
      unfolding h by (simp add: downloads_withDownloads)
    have rej: "downloads hit = None"
      if "getPackageDownloads
            (PackageInfo.scope (document hit)) (PackageInfo.name (document hit)) = Rejected e"
        and "truthy (getErrorMessage e)" for e
      using that d by (simp add: summary_rejected reportsError_failure)
    have res: "\<exists>summary.
          getPackageDownloadSummary getPackageDownloads
            (PackageInfo.scope (document hit)) (PackageInfo.name (document hit)) = Inr summary
          \<and> DownloadSummary.error summary = None
          \<and> downloads hit = Some summary"
      if "getPackageDownloads
            (PackageInfo.scope (document hit)) (PackageInfo.name (document hit))
            = Resolved (Some data)" for data
      using summary_of_data [of getPackageDownloads "PackageInfo.scope (document hit)"
          "PackageInfo.name (document hit)" data] that d
      by (auto simp add: reportsError_def)
    show ?thesis using d rej res by auto
  qed
  have two: "length sent = 2" using r(3) by simp
  show ?thesis using orig r(1,2) two kept none each unfolding pkg_def by blast
qed

lemma example_scopes:
  "PackageInfo.scope stdNet = ''std''" "PackageInfo.name stdNet = ''net''"
  "PackageInfo.scope honoHono = ''hono''" "PackageInfo.name honoHono = ''hono''"
  by (simp_all add: stdNet_def honoHono_def package_def)

lemma partial_hits:
  "EnhancedOramaSearchResult.hits
     (fst (findSimilarPackages rankingBackend partialRegistry ''@std/http'' limitFive))
   = [withDownloads partialRegistry \<lparr>document = stdNet, score = 7\<rparr>,
      withDownloads partialRegistry \<lparr>document = honoHono, score = 4\<rparr>]"
  by (simp add: findSimilarPackages_unfold ranking_resolves Let_def example_ids slice_all
      limitFive_def orNumber_def)

text \<open>
  The backend answers every request with three hits, \<open>@std/http\<close> first; the registry
  has no download data for \<open>@std/net\<close>. The call succeeds: the hit \<open>@std/net\<close> has no
  \<open>downloads\<close>, the hit \<open>@hono/hono\<close> has its summary.
\<close>

theorem findSimilarPackages_partial_failure_witness:
  "originalPackage
     (fst (findSimilarPackages rankingBackend partialRegistry ''@std/http'' limitFive))
     = Some stdHttp
   \<and> EnhancedOramaSearchResult.error
       (fst (findSimilarPackages rankingBackend partialRegistry ''@std/http'' limitFive)) = None
   \<and> map (\<lambda>hit. (PackageInfo.id' (document hit), downloads hit = None))
        (EnhancedOramaSearchResult.hits
           (fst (findSimilarPackages rankingBackend partialRegistry ''@std/http'' limitFive)))
      = [(''@std/net'', True), (''@hono/hono'', False)]"
proof -
  have inc: "OramaSearchOptions.includeDownloads limitFive \<noteq> Some False"
    by (simp add: limitFive_def)
  have ans: "rankingBackend
      \<lparr>term' = ''@std/http'', SearchParams.limit = 1, SearchParams.offset = 0,
       SearchParams.boost = [(''name'', 5), (''scope'', 3), (''id'', 2)],
       SearchParams.mode = fulltext, SearchParams.includeDownloads = None\<rparr>
      = Resolved (Some \<lparr>OramaSearchResult.count = 3,
                        hits = Some [\<lparr>document = stdHttp, score = 9\<rparr>,
                                     \<lparr>document = stdNet, score = 7\<rparr>,
                                     \<lparr>document = honoHono, score = 4\<rparr>],
                        error = None\<rparr>)"
    by (simp add: rankingBackend_def)
  have net: "partialRegistry ''std'' ''net'' = Rejected (JsError ''HTTP error! status: 404'')"
    by (simp add: partialRegistry_def failingRegistry_def)
  have hono: "partialRegistry ''hono'' ''hono''
      = Resolved (Some \<lparr>total = Some nineDays,
                        recentVersions =
                          Some [\<lparr>version = ''1.0.0'',
                                 JsrVersionDownloads.downloads = Some nineDays\<rparr>]\<rparr>)"
    by (simp add: partialRegistry_def seriesRegistry_def)
  show ?thesis
    using findSimilarPackages_partial_failure
      [of limitFive rankingBackend "''@std/http''"
        "\<lparr>OramaSearchResult.count = 3,
          hits = Some [\<lparr>document = stdHttp, score = 9\<rparr>,
                       \<lparr>document = stdNet, score = 7\<rparr>,
                       \<lparr>document = honoHono, score = 4\<rparr>],
          error = None\<rparr>"
        "\<lparr>document = stdHttp, score = 9\<rparr>"
        "[\<lparr>document = stdNet, score = 7\<rparr>, \<lparr>document = honoHono, score = 4\<rparr>]"
        partialRegistry
        "fst (findSimilarPackages rankingBackend partialRegistry ''@std/http'' limitFive)"
        "snd (findSimilarPackages rankingBackend partialRegistry ''@std/http'' limitFive)",
        OF inc ans]
    by (auto simp add: partial_hits example_ids example_scopes net hono truthy_def)
qed

text \<open>
  C8, at the input where the code departs from it: the backend rejects the first search.
  \<^verbatim>\<open>queryOrama\<close> does not throw, as its documentation says it does, but returns no hit
  and the message of the failure; \<^verbatim>\<open>findSimilarPackages\<close> then returns the result of a
  package that is not found, after the one request.
\<close>

theorem backend_error_reported_as_not_found:
  "findSimilarPackages failingBackend failingRegistry ''@std/http'' limitFive
     = (\<lparr>EnhancedOramaSearchResult.count = 0, hits = [],
         error = Some ''Package not found'', originalPackage = None\<rparr>,
        [\<lparr>term' = ''@std/http'', SearchParams.limit = 1, SearchParams.offset = 0,
          SearchParams.boost = [(''name'', 5), (''scope'', 3), (''id'', 2)],
          SearchParams.mode = fulltext, SearchParams.includeDownloads = None\<rparr>])
   \<and> fst (queryOrama failingBackend ''@std/http''
            \<lparr>OramaSearchOptions.limit = Some 1,
             OramaSearchOptions.offset = None,
             OramaSearchOptions.mode = None,
             OramaSearchOptions.boost = Some [(''name'', 5), (''scope'', 3), (''id'', 2)],
             OramaSearchOptions.includeDownloads = None\<rparr>)
     = \<lparr>OramaSearchResult.count = 0, hits = Some [],
        error = Some ''Search failed: fetch failed''\<rparr>"
  by (simp add: findSimilarPackages_unfold queryOrama_def failingBackend_def Let_def
      resolve_request)

text \<open>
  For every backend: the result is that of a package not found exactly when the backend
  does not answer the first request with at least one hit, be it with an empty or
  missing list of hits, with a null response or with a failure.
\<close>

lemma not_found_without_hit:
  "fst (findSimilarPackages client getPackageDownloads packageName options)
     = \<lparr>EnhancedOramaSearchResult.count = 0, hits = [],
        error = Some ''Package not found'', originalPackage = None\<rparr>
   \<longleftrightarrow> \<not> (\<exists>res first rest.
            client \<lparr>term' = packageName, SearchParams.limit = 1, SearchParams.offset = 0,
                    SearchParams.boost = [(''name'', 5), (''scope'', 3), (''id'', 2)],
                    SearchParams.mode = fulltext, SearchParams.includeDownloads = None\<rparr>
              = Resolved (Some res)
            \<and> OramaSearchResult.hits res = Some (first # rest))"
proof (cases "\<exists>res. client (searchParams packageName resolveOptions) = Resolved (Some res)")
  case True
  then obtain res where c: "client (searchParams packageName resolveOptions) = Resolved (Some res)"
    by blast
  then have q: "fst (queryOrama client packageName resolveOptions) = res"
    by (simp add: queryOrama_resolved)
  show ?thesis
    using c unfolding resolve_request [symmetric]
    by (auto simp add: findSimilarPackages_unfold q Let_def split: option.splits list.splits)
next
  case False
  then have "OramaSearchResult.hits (fst (queryOrama client packageName resolveOptions)) = Some []"
    using queryOrama_no_data [of client packageName resolveOptions] by simp
  then show ?thesis
    using False unfolding resolve_request [symmetric]
    by (auto simp add: findSimilarPackages_unfold)
qed

section \<open>The compare tool, proved\<close>












end
